theory Spec2Isabelle
  imports
    Complex_Main
    "HOL-Library.Multiset"
    "HOL-Library.Sublist"
    "HOL-Library.Char_ord"
    "HOL-Library.List_Lexorder"
begin

section \<open>Recipe manager: the embedding\<close>

text \<open>
  The development follows \<^verbatim>\<open>src/models.py\<close> (the two tables and \<^verbatim>\<open>Ingredient.scaled\<close>)
  and \<^verbatim>\<open>src/app.py\<close> (the request handlers). Conventions:
  \<^item> a Python \<^verbatim>\<open>str\<close> is a \<^typ>\<open>string\<close> of 8-bit characters; case folding and
    whitespace are the ASCII ones (what SQLite's \<^verbatim>\<open>lower()\<close> does, and what Python does on
    ASCII text);
  \<^item> a Python \<^verbatim>\<open>int\<close> is an \<^typ>\<open>int\<close> and a Python \<^verbatim>\<open>float\<close> is a \<^typ>\<open>real\<close>:
    arithmetic is exact, so rounding error, infinities and NaN are outside the model; the
    two operations of the shopping list that raise at the limits of the machine's numbers,
    binding an id for SQLite and dividing integers, are in \<open>bounded_totals\<close>;
  \<^item> a nullable column is an \<^typ>\<open>'a option\<close>;
  \<^item> an exception that ends the request is a value \<open>Inl e\<close> of \<open>error + 'a\<close>;
  \<^item> the builtins \<^verbatim>\<open>int()\<close> and \<^verbatim>\<open>float()\<close> applied to form text are parameters
    \<open>py_int\<close> and \<open>py_float\<close> (\<open>None\<close> is their \<^verbatim>\<open>ValueError\<close>), the clock is the
    parameter \<open>now\<close>.
\<close>

subsection \<open>Strings\<close>

definition lower_char :: "char \<Rightarrow> char" where
  "lower_char c =
     (case map_of (zip ''ABCDEFGHIJKLMNOPQRSTUVWXYZ'' ''abcdefghijklmnopqrstuvwxyz'') c of
        Some l \<Rightarrow> l
      | None \<Rightarrow> c)"

text \<open>\<^verbatim>\<open>str.lower()\<close>.\<close>

definition lower :: "string \<Rightarrow> string" where
  "lower s = map lower_char s"

text \<open>\<^verbatim>\<open>str.isspace()\<close> on one ASCII character: TAB, LF, VT, FF, CR, FS, GS, RS, US, space.\<close>

definition is_space :: "char \<Rightarrow> bool" where
  "is_space c \<longleftrightarrow>
     c \<in> set [CHR 0x09, CHR 0x0A, CHR 0x0B, CHR 0x0C, CHR 0x0D,
              CHR 0x1C, CHR 0x1D, CHR 0x1E, CHR 0x1F, CHR 0x20]"

text \<open>\<^verbatim>\<open>str.strip()\<close>.\<close>

definition strip :: "string \<Rightarrow> string" where
  "strip s = rev (dropWhile is_space (rev (dropWhile is_space s)))"

subsection \<open>Numbers\<close>

definition round_half_even :: "real \<Rightarrow> int" where
  "round_half_even x =
     (let f = \<lfloor>x\<rfloor>; d = x - real_of_int f
      in if d < 1 / 2 then f
         else if 1 / 2 < d then f + 1
         else if even f then f else f + 1)"

text \<open>\<^verbatim>\<open>round(x, ndigits)\<close>: the closest multiple of \<open>10 ^ -ndigits\<close>, a tie going to the
  even choice.\<close>

definition py_round :: "real \<Rightarrow> nat \<Rightarrow> real" where
  "py_round x ndigits = real_of_int (round_half_even (x * 10 ^ ndigits)) / 10 ^ ndigits"

subsection \<open>The tables of \<^verbatim>\<open>models.py\<close>\<close>

record recipe =
  rid :: int
  title :: string
  description :: "string option"
  category :: "string option"
  servings :: "int option"
  prep_time :: "int option"
  cook_time :: "int option"
  instructions :: "string option"
  calories :: "int option"
  protein :: "real option"
  carbs :: "real option"
  fat :: "real option"
  created_at :: nat
  updated_at :: nat

record ingredient =
  iid :: int
  recipe_id :: int
  name :: string
  amount :: "real option"
  unit :: "string option"

text \<open>The database: both tables, each in primary-key order.\<close>

record store =
  recipes :: "recipe list"
  ingredient_rows :: "ingredient list"

text \<open>The relationship \<^verbatim>\<open>Recipe.ingredients\<close>: the rows whose foreign key is the recipe's id.\<close>

definition ingredients :: "store \<Rightarrow> recipe \<Rightarrow> ingredient list" where
  "ingredients s r = filter (\<lambda>i. recipe_id i = rid r) (ingredient_rows s)"

text \<open>\<^verbatim>\<open>Recipe.query.get(id)\<close>.\<close>

definition get :: "store \<Rightarrow> int \<Rightarrow> recipe option" where
  "get s i = find (\<lambda>r. rid r = i) (recipes s)"

subsection \<open>\<^verbatim>\<open>Ingredient.scaled\<close>\<close>

record scaled_ingredient =
  scaled_name :: string
  scaled_amount :: "real option"
  scaled_unit :: "string option"

text \<open>The guard is \<^verbatim>\<open>if self.amount\<close>: an amount of \<open>None\<close> and an amount of \<open>0.0\<close> are
  both falsy.\<close>

definition scaled :: "ingredient \<Rightarrow> real \<Rightarrow> scaled_ingredient" where
  "scaled self multiplier =
     \<lparr> scaled_name = name self,
       scaled_amount =
         (case amount self of
            None \<Rightarrow> None
          | Some a \<Rightarrow> if a \<noteq> 0 then Some (py_round (a * multiplier) 2) else None),
       scaled_unit = unit self \<rparr>"

subsection \<open>Requests\<close>

datatype error =
  NotFound | BadRequestKeyError | ValueError | KeyError | TypeError | OverflowError

text \<open>\<^verbatim>\<open>request.form\<close> and \<^verbatim>\<open>request.args\<close>: the submitted fields in order, a key possibly
  repeated.\<close>

type_synonym form = "(string \<times> string) list"

text \<open>\<^verbatim>\<open>form.getlist(k)\<close>: every value submitted under \<open>k\<close>, in order.\<close>

definition getlist :: "form \<Rightarrow> string \<Rightarrow> string list" where
  "getlist f k = map snd (filter (\<lambda>kv. fst kv = k) f)"

text \<open>\<^verbatim>\<open>form.get(k)\<close>: the first value submitted under \<open>k\<close>, or \<open>None\<close>.\<close>

definition form_get :: "form \<Rightarrow> string \<Rightarrow> string option" where
  "form_get f k = map_of f k"

text \<open>\<^verbatim>\<open>str(n)\<close> of an integer, as the f-string \<^verbatim>\<open>f'servings_{recipe_id}'\<close> prints it.\<close>

fun str_nat :: "nat \<Rightarrow> string" where
  "str_nat n =
     (if n < 10 then [''0123456789'' ! n]
      else str_nat (n div 10) @ [''0123456789'' ! (n mod 10)])"

definition str_int :: "int \<Rightarrow> string" where
  "str_int i = (if i < 0 then CHR ''-'' # str_nat (nat (- i)) else str_nat (nat i))"

subsection \<open>The multiplier\<close>

text \<open>
  \<^verbatim>\<open>desired / recipe.servings if recipe.servings else 1\<close>, the expression of
  \<^verbatim>\<open>view_recipe\<close> and of \<^verbatim>\<open>shopping_list\<close>. The condition is evaluated first, so a failing
  \<open>desired\<close> (a missing dictionary key, a \<open>None\<close>) matters only when the stored servings are
  truthy.
\<close>

definition multiplier :: "error + int \<Rightarrow> int option \<Rightarrow> error + real" where
  "multiplier desired stored =
     (case stored of
        None \<Rightarrow> Inr 1
      | Some d \<Rightarrow>
          if d \<noteq> 0
          then (case desired of Inl e \<Rightarrow> Inl e | Inr n \<Rightarrow> Inr (real_of_int n / real_of_int d))
          else Inr 1)"

subsection \<open>\<^verbatim>\<open>view_recipe\<close>\<close>




subsection \<open>\<^verbatim>\<open>shopping_list\<close> (the POST branch)\<close>

text \<open>\<^verbatim>\<open>[int(id) for id in request.form.getlist('recipes')]\<close>.\<close>

fun selected_ids :: "(string \<Rightarrow> int option) \<Rightarrow> string list \<Rightarrow> error + int list" where
  "selected_ids py_int [] = Inr []"
| "selected_ids py_int (v # vs) =
     (case py_int v of
        None \<Rightarrow> Inl ValueError
      | Some i \<Rightarrow>
          (case selected_ids py_int vs of Inl e \<Rightarrow> Inl e | Inr ids \<Rightarrow> Inr (i # ids)))"

text \<open>\<^verbatim>\<open>int(request.form.get(f'servings_{recipe_id}', 4))\<close>.\<close>

definition desired_servings :: "(string \<Rightarrow> int option) \<Rightarrow> form \<Rightarrow> int \<Rightarrow> error + int" where
  "desired_servings py_int f sel =
     (case form_get f (''servings_'' @ str_int sel) of
        None \<Rightarrow> Inr 4
      | Some v \<Rightarrow> (case py_int v of None \<Rightarrow> Inl ValueError | Some n \<Rightarrow> Inr n))"

text \<open>The first loop: it fills the dictionary \<^verbatim>\<open>servings_map\<close>.\<close>

fun servings_map ::
  "(string \<Rightarrow> int option) \<Rightarrow> form \<Rightarrow> int list \<Rightarrow> (int \<rightharpoonup> int) \<Rightarrow> error + (int \<rightharpoonup> int)" where
  "servings_map py_int f [] m = Inr m"
| "servings_map py_int f (sel # ids) m =
     (case desired_servings py_int f sel of
        Inl e \<Rightarrow> Inl e
      | Inr n \<Rightarrow> servings_map py_int f ids (m(sel \<mapsto> n)))"

record shopping_item =
  item_name :: string
  item_amount :: real
  item_unit :: string
  item_recipes :: "string list"

text \<open>The dictionary \<^verbatim>\<open>ingredient_totals\<close>: its entries in insertion order, one per key.\<close>

type_synonym totals = "((string \<times> string) \<times> shopping_item) list"

text \<open>The body of the inner loop, for one ingredient of a recipe with the given title.\<close>

definition add_ingredient :: "string \<Rightarrow> real \<Rightarrow> totals \<Rightarrow> ingredient \<Rightarrow> totals" where
  "add_ingredient recipe_title m ingredient_totals ing =
     (let key = (lower (name ing), (case unit ing of None \<Rightarrow> [] | Some u \<Rightarrow> u));
          scaled_amt = (case amount ing of None \<Rightarrow> 0 | Some a \<Rightarrow> a) * m
      in if key \<in> set (map fst ingredient_totals)
         then map (\<lambda>(k, item).
                if k = key
                then (k, item\<lparr> item_amount := item_amount item + scaled_amt,
                                item_recipes := item_recipes item @ [recipe_title] \<rparr>)
                else (k, item)) ingredient_totals
         else ingredient_totals @
              [(key, \<lparr> item_name = name ing,
                       item_amount = scaled_amt,
                       item_unit = (case unit ing of None \<Rightarrow> [] | Some u \<Rightarrow> u),
                       item_recipes = [recipe_title] \<rparr>)])"

text \<open>The second loop over \<^verbatim>\<open>selected_ids\<close>, on integers and quotients of any size;
  \<^verbatim>\<open>servings_map[recipe_id]\<close> raises \<^verbatim>\<open>KeyError\<close> on a missing key.\<close>

fun ingredient_totals ::
  "store \<Rightarrow> (int \<rightharpoonup> int) \<Rightarrow> int list \<Rightarrow> totals \<Rightarrow> error + totals" where
  "ingredient_totals s smap [] t = Inr t"
| "ingredient_totals s smap (sel # ids) t =
     (case get s sel of
        None \<Rightarrow> ingredient_totals s smap ids t
      | Some recipe \<Rightarrow>
          (case multiplier (case smap sel of None \<Rightarrow> Inl KeyError | Some n \<Rightarrow> Inr n)
                  (servings recipe) of
             Inl e \<Rightarrow> Inl e
           | Inr m \<Rightarrow>
               ingredient_totals s smap ids
                 (foldl (add_ingredient (title recipe) m) t (ingredients s recipe))))"

text \<open>
  The same loop with the two places where the numbers of the machine make it raise.
  \<^verbatim>\<open>Recipe.query.get(recipe_id)\<close> binds the id to an SQLite \<^verbatim>\<open>INTEGER\<close>, a signed
  64-bit number, and a Python \<^verbatim>\<open>int\<close> outside that range raises \<^verbatim>\<open>OverflowError\<close>. The
  division \<^verbatim>\<open>int / int\<close> rounds the quotient to the nearest double and raises
  \<^verbatim>\<open>OverflowError\<close> when that is no finite double, which is so from \<open>2 ^ 1024 - 2 ^ 970\<close>
  on.
\<close>

definition sqlite_integer :: "int \<Rightarrow> bool" where
  "sqlite_integer i \<longleftrightarrow> - (2 ^ 63) \<le> i \<and> i < 2 ^ 63"

definition float_overflow :: "real \<Rightarrow> bool" where
  "float_overflow q \<longleftrightarrow> 2 ^ 1024 - 2 ^ 970 \<le> \<bar>q\<bar>"

definition bounded_multiplier :: "error + int \<Rightarrow> int option \<Rightarrow> error + real" where
  "bounded_multiplier desired stored =
     (case stored of
        None \<Rightarrow> Inr 1
      | Some d \<Rightarrow>
          if d \<noteq> 0
          then (case desired of
                  Inl e \<Rightarrow> Inl e
                | Inr n \<Rightarrow>
                    if float_overflow (real_of_int n / real_of_int d) then Inl OverflowError
                    else Inr (real_of_int n / real_of_int d))
          else Inr 1)"

fun bounded_totals ::
  "store \<Rightarrow> (int \<rightharpoonup> int) \<Rightarrow> int list \<Rightarrow> totals \<Rightarrow> error + totals" where
  "bounded_totals s smap [] t = Inr t"
| "bounded_totals s smap (sel # ids) t =
     (if sqlite_integer sel
      then (case get s sel of
              None \<Rightarrow> bounded_totals s smap ids t
            | Some recipe \<Rightarrow>
                (case bounded_multiplier
                        (case smap sel of None \<Rightarrow> Inl KeyError | Some n \<Rightarrow> Inr n)
                        (servings recipe) of
                   Inl e \<Rightarrow> Inl e
                 | Inr m \<Rightarrow>
                     bounded_totals s smap ids
                       (foldl (add_ingredient (title recipe) m) t (ingredients s recipe))))
      else Inl OverflowError)"

text \<open>\<^verbatim>\<open>sorted(ingredient_totals.values(), key=lambda x: x['name'].lower())\<close>; Python's
  \<^verbatim>\<open>sorted\<close> is stable, as \<^const>\<open>sort_key\<close> is.\<close>

definition shopping_items :: "totals \<Rightarrow> shopping_item list" where
  "shopping_items t = sort_key (\<lambda>x. lower (item_name x)) (map snd t)"

record shopping_view =
  shop_recipes :: "recipe list"
  shop_items :: "shopping_item list"
  shop_selected_ids :: "int list"

definition shopping_list ::
  "(string \<Rightarrow> int option) \<Rightarrow> store \<Rightarrow> form \<Rightarrow> error + shopping_view" where
  "shopping_list py_int s f =
     (case selected_ids py_int (getlist f ''recipes'') of
        Inl e \<Rightarrow> Inl e
      | Inr ids \<Rightarrow>
          (case servings_map py_int f ids Map.empty of
             Inl e \<Rightarrow> Inl e
           | Inr smap \<Rightarrow>
               (case bounded_totals s smap ids [] of
                  Inl e \<Rightarrow> Inl e
                | Inr t \<Rightarrow>
                    Inr \<lparr> shop_recipes = sort_key title (recipes s),
                          shop_items = shopping_items t,
                          shop_selected_ids = ids \<rparr>)))"

subsection \<open>\<^verbatim>\<open>index\<close>\<close>








subsection \<open>\<^verbatim>\<open>new_recipe\<close>, \<^verbatim>\<open>edit_recipe\<close> and \<^verbatim>\<open>delete_recipe\<close> (the POST branches)\<close>

text \<open>The integer primary key SQLite gives a new row: one more than the largest in the
  table.\<close>

definition next_id :: "int list \<Rightarrow> int" where
  "next_id ids = (if ids = [] then 1 else Max (set ids) + 1)"

text \<open>\<^verbatim>\<open>int(request.form[k]) if request.form.get(k) else None\<close>.\<close>

definition opt_int :: "(string \<Rightarrow> int option) \<Rightarrow> form \<Rightarrow> string \<Rightarrow> error + int option" where
  "opt_int py_int f k =
     (case form_get f k of
        None \<Rightarrow> Inr None
      | Some v \<Rightarrow>
          if v \<noteq> []
          then (case py_int v of None \<Rightarrow> Inl ValueError | Some n \<Rightarrow> Inr (Some n))
          else Inr None)"

text \<open>The scalar fields both handlers read from the form, in the order they read them:
  \<^verbatim>\<open>request.form['title']\<close> raises on a missing key, the others have defaults.\<close>

record recipe_fields =
  f_title :: string
  f_description :: string
  f_category :: string
  f_servings :: int
  f_prep_time :: "int option"
  f_cook_time :: "int option"
  f_instructions :: string

definition read_fields :: "(string \<Rightarrow> int option) \<Rightarrow> form \<Rightarrow> error + recipe_fields" where
  "read_fields py_int f =
     (case form_get f ''title'' of
        None \<Rightarrow> Inl BadRequestKeyError
      | Some t \<Rightarrow>
          (case (case form_get f ''servings'' of None \<Rightarrow> Some 4 | Some v \<Rightarrow> py_int v) of
             None \<Rightarrow> Inl ValueError
           | Some sv \<Rightarrow>
               (case opt_int py_int f ''prep_time'' of
                  Inl e \<Rightarrow> Inl e
                | Inr pt \<Rightarrow>
                    (case opt_int py_int f ''cook_time'' of
                       Inl e \<Rightarrow> Inl e
                     | Inr ct \<Rightarrow>
                         Inr \<lparr> f_title = t,
                               f_description =
                                 (case form_get f ''description'' of None \<Rightarrow> [] | Some v \<Rightarrow> v),
                               f_category =
                                 (case form_get f ''category'' of
                                    None \<Rightarrow> ''Dinner'' | Some v \<Rightarrow> v),
                               f_servings = sv,
                               f_prep_time = pt,
                               f_cook_time = ct,
                               f_instructions =
                                 (case form_get f ''instructions'' of
                                    None \<Rightarrow> [] | Some v \<Rightarrow> v) \<rparr>))))"

text \<open>The loop over \<^verbatim>\<open>zip(names, amounts, units)\<close>: a row whose name strips to the empty
  string is passed over; \<^verbatim>\<open>float(amount)\<close> may raise.\<close>

fun read_ingredients ::
  "(string \<Rightarrow> real option) \<Rightarrow> (string \<times> string \<times> string) list \<Rightarrow>
     error + (string \<times> real option \<times> string) list" where
  "read_ingredients py_float [] = Inr []"
| "read_ingredients py_float ((n, a, u) # rows) =
     (if strip n \<noteq> []
      then (case (if a \<noteq> [] then map_option Some (py_float a) else Some None) of
              None \<Rightarrow> Inl ValueError
            | Some amt \<Rightarrow>
                (case read_ingredients py_float rows of
                   Inl e \<Rightarrow> Inl e
                 | Inr ings \<Rightarrow> Inr ((strip n, amt, u) # ings)))
      else read_ingredients py_float rows)"

definition form_rows :: "form \<Rightarrow> (string \<times> string \<times> string) list" where
  "form_rows f =
     zip (getlist f ''ingredient_name[]'')
       (zip (getlist f ''ingredient_amount[]'') (getlist f ''ingredient_unit[]''))"

text \<open>The rows the commit inserts for the ingredients appended to a recipe, keys counting
  up from \<open>k\<close>.\<close>

fun insert_rows :: "int \<Rightarrow> int \<Rightarrow> (string \<times> real option \<times> string) list \<Rightarrow> ingredient list" where
  "insert_rows k r [] = []"
| "insert_rows k r ((n, a, u) # ings) =
     \<lparr> iid = k, recipe_id = r, name = n, amount = a, unit = Some u \<rparr> #
     insert_rows (k + 1) r ings"

text \<open>A handler that fails before \<^verbatim>\<open>db.session.commit()\<close> leaves the database as it was:
  the result is the error alone. A handler that commits returns the new database and the id
  it redirects to.\<close>

definition new_recipe ::
  "(string \<Rightarrow> int option) \<Rightarrow> (string \<Rightarrow> real option) \<Rightarrow> nat \<Rightarrow> store \<Rightarrow> form \<Rightarrow>
     error + (store \<times> int)" where
  "new_recipe py_int py_float now s f =
     (case read_fields py_int f of
        Inl e \<Rightarrow> Inl e
      | Inr rf \<Rightarrow>
          (case read_ingredients py_float (form_rows f) of
             Inl e \<Rightarrow> Inl e
           | Inr ings \<Rightarrow>
               let new_id = next_id (map rid (recipes s));
                   recipe =
                     \<lparr> rid = new_id, title = f_title rf,
                       description = Some (f_description rf),
                       category = Some (f_category rf),
                       servings = Some (f_servings rf),
                       prep_time = f_prep_time rf, cook_time = f_cook_time rf,
                       instructions = Some (f_instructions rf),
                       calories = None, protein = None, carbs = None, fat = None,
                       created_at = now, updated_at = now \<rparr>
               in Inr (s\<lparr> recipes := recipes s @ [recipe],
                          ingredient_rows := ingredient_rows s @
                            insert_rows (next_id (map iid (ingredient_rows s))) new_id ings \<rparr>,
                       new_id)))"

text \<open>\<^verbatim>\<open>recipe.ingredients.clear()\<close> with \<^verbatim>\<open>delete-orphan\<close> deletes the rows the recipe
  owned; \<^verbatim>\<open>onupdate\<close> refreshes \<^verbatim>\<open>updated_at\<close> when the commit writes a changed column
  of the recipe's row.\<close>

definition edit_recipe ::
  "(string \<Rightarrow> int option) \<Rightarrow> (string \<Rightarrow> real option) \<Rightarrow> nat \<Rightarrow> store \<Rightarrow> int \<Rightarrow> form \<Rightarrow>
     error + (store \<times> int)" where
  "edit_recipe py_int py_float now s i f =
     (case get s i of
        None \<Rightarrow> Inl NotFound
      | Some recipe \<Rightarrow>
          (case read_fields py_int f of
             Inl e \<Rightarrow> Inl e
           | Inr rf \<Rightarrow>
               (case read_ingredients py_float (form_rows f) of
                  Inl e \<Rightarrow> Inl e
                | Inr ings \<Rightarrow>
                    let edited =
                          recipe\<lparr> title := f_title rf,
                                  description := Some (f_description rf),
                                  category := Some (f_category rf),
                                  servings := Some (f_servings rf),
                                  prep_time := f_prep_time rf,
                                  cook_time := f_cook_time rf,
                                  instructions := Some (f_instructions rf) \<rparr>;
                        written =
                          (if edited \<noteq> recipe then edited\<lparr> updated_at := now \<rparr> else recipe)
                    in Inr (s\<lparr> recipes :=
                                 map (\<lambda>r. if rid r = rid recipe then written else r) (recipes s),
                               ingredient_rows :=
                                 filter (\<lambda>ing. recipe_id ing \<noteq> rid recipe) (ingredient_rows s) @
                                 insert_rows (next_id (map iid (ingredient_rows s)))
                                   (rid recipe) ings \<rparr>,
                            rid recipe))))"

text \<open>\<^verbatim>\<open>db.session.delete(recipe)\<close>: the relationship's \<^verbatim>\<open>cascade='all, delete-orphan'\<close>
  deletes the rows the recipe owns together with the recipe's row.\<close>

definition delete_recipe :: "store \<Rightarrow> int \<Rightarrow> error + store" where
  "delete_recipe s i =
     (case get s i of
        None \<Rightarrow> Inl NotFound
      | Some recipe \<Rightarrow>
          Inr (s\<lparr> recipes := filter (\<lambda>r. rid r \<noteq> rid recipe) (recipes s),
                   ingredient_rows :=
                     filter (\<lambda>ing. recipe_id ing \<noteq> rid recipe) (ingredient_rows s) \<rparr>))"

section \<open>Notions the properties are stated with\<close>

subsection \<open>Occurrences of ingredients in a selection\<close>

text \<open>
  An occurrence is one pass of the inner loop of \<^verbatim>\<open>shopping_list\<close>: an ingredient of a
  selected recipe that resolves, with the recipe's title and multiplier. The selections are
  the list \<open>ids\<close> and the servings \<open>desired i\<close> wanted for the recipe \<open>i\<close>.
\<close>

record occurrence =
  occ_title :: string
  occ_multiplier :: real
  occ_ingredient :: ingredient

definition occ_key :: "occurrence \<Rightarrow> string \<times> string" where
  "occ_key oc = (lower (name (occ_ingredient oc)),
                 (case unit (occ_ingredient oc) of None \<Rightarrow> [] | Some u \<Rightarrow> u))"

definition occ_amount :: "occurrence \<Rightarrow> real" where
  "occ_amount oc =
     (case amount (occ_ingredient oc) of None \<Rightarrow> 0 | Some a \<Rightarrow> a) * occ_multiplier oc"

definition occurrences :: "store \<Rightarrow> (int \<Rightarrow> int) \<Rightarrow> int list \<Rightarrow> occurrence list" where
  "occurrences s desired ids =
     concat (map (\<lambda>i.
       case get s i of
         None \<Rightarrow> []
       | Some r \<Rightarrow>
           map (\<lambda>ing. \<lparr> occ_title = title r,
                        occ_multiplier =
                          (case servings r of
                             None \<Rightarrow> 1
                           | Some d \<Rightarrow> if d \<noteq> 0 then real_of_int (desired i) / real_of_int d else 1),
                        occ_ingredient = ing \<rparr>)
               (ingredients s r)) ids)"

text \<open>The elements of a list in the order of their first occurrence.\<close>

definition first_seen :: "'a list \<Rightarrow> 'a list" where
  "first_seen xs = rev (remdups (rev xs))"

text \<open>The loop body on an occurrence.\<close>

definition add_occ :: "totals \<Rightarrow> occurrence \<Rightarrow> totals" where
  "add_occ t oc = add_ingredient (occ_title oc) (occ_multiplier oc) t (occ_ingredient oc)"

text \<open>The entry of a key: name of its first occurrence, sum of the amounts, the unit of the
  key, the titles in order.\<close>

definition item_of :: "occurrence list \<Rightarrow> string \<times> string \<Rightarrow> shopping_item" where
  "item_of os k =
     (let g = filter (\<lambda>oc. occ_key oc = k) os
      in \<lparr> item_name = (case g of [] \<Rightarrow> [] | oc # rest \<Rightarrow> name (occ_ingredient oc)),
           item_amount = sum_list (map occ_amount g),
           item_unit = snd k,
           item_recipes = map occ_title g \<rparr>)"

text \<open>The key a shopping item stands for.\<close>

definition item_key :: "shopping_item \<Rightarrow> string \<times> string" where
  "item_key it = (lower (item_name it), item_unit it)"

definition sorted_keys :: "occurrence list \<Rightarrow> (string \<times> string) list" where
  "sorted_keys os = sort_key fst (first_seen (map occ_key os))"


text \<open>The selection \<open>i\<close> stays within the limits of the machine's numbers: the id is an SQLite
  integer and, when it resolves to a recipe with truthy servings, the quotient is a finite
  double.\<close>

definition within_limits :: "store \<Rightarrow> (int \<Rightarrow> int) \<Rightarrow> int \<Rightarrow> bool" where
  "within_limits s desired i \<longleftrightarrow>
     sqlite_integer i \<and>
     (case get s i of
        None \<Rightarrow> True
      | Some r \<Rightarrow>
          (case servings r of
             None \<Rightarrow> True
           | Some d \<Rightarrow>
               d = 0 \<or> \<not> float_overflow (real_of_int (desired i) / real_of_int d)))"


subsection \<open>Substrings\<close>



subsection \<open>Requests that write, and what holds of the tables\<close>

datatype request =
    New_recipe nat form
  | Edit_recipe nat int form
  | Delete_recipe int

text \<open>The database after a request: what the handler committed, or the database as it
  was when the handler failed.\<close>

definition after ::
  "(string \<Rightarrow> int option) \<Rightarrow> (string \<Rightarrow> real option) \<Rightarrow> store \<Rightarrow> request \<Rightarrow> store" where
  "after py_int py_float s req =
     (case req of
        New_recipe now f \<Rightarrow>
          (case new_recipe py_int py_float now s f of Inl e \<Rightarrow> s | Inr (s', k) \<Rightarrow> s')
      | Edit_recipe now i f \<Rightarrow>
          (case edit_recipe py_int py_float now s i f of Inl e \<Rightarrow> s | Inr (s', k) \<Rightarrow> s')
      | Delete_recipe i \<Rightarrow>
          (case delete_recipe s i of Inl e \<Rightarrow> s | Inr s' \<Rightarrow> s'))"

definition empty_store :: store where
  "empty_store = \<lparr> recipes = [], ingredient_rows = [] \<rparr>"

text \<open>Every ingredient row refers to a recipe row.\<close>

definition references_ok :: "store \<Rightarrow> bool" where
  "references_ok s = list_all (\<lambda>ing. recipe_id ing \<in> set (map rid (recipes s))) (ingredient_rows s)"


subsection \<open>Example data\<close>

definition pancakes :: recipe where
  "pancakes =
     \<lparr> rid = 1, title = ''Pancakes'', description = Some ''Fluffy'',
       category = Some ''Breakfast'', servings = Some 2, prep_time = None,
       cook_time = None, instructions = Some [], calories = None, protein = None,
       carbs = None, fat = None, created_at = 1, updated_at = 1 \<rparr>"

definition cake :: recipe where
  "cake =
     \<lparr> rid = 2, title = ''Cake'', description = None,
       category = Some ''Dessert'', servings = Some 4, prep_time = None,
       cook_time = None, instructions = Some [], calories = None, protein = None,
       carbs = None, fat = None, created_at = 2, updated_at = 2 \<rparr>"

definition kitchen :: store where
  "kitchen =
     \<lparr> recipes = [pancakes, cake],
       ingredient_rows =
         [\<lparr> iid = 1, recipe_id = 1, name = ''Sugar'', amount = Some 1, unit = Some ''cup'' \<rparr>,
          \<lparr> iid = 2, recipe_id = 2, name = ''sugar'', amount = Some 2, unit = Some ''cup'' \<rparr>,
          \<lparr> iid = 3, recipe_id = 2, name = ''Flour'', amount = None, unit = Some ''g'' \<rparr>] \<rparr>"

definition demo_int :: "string \<Rightarrow> int option" where
  "demo_int = map_of [(''1'', 1), (''2'', 2), (''4'', 4), (''6'', 6)]"

definition demo_float :: "string \<Rightarrow> real option" where
  "demo_float = map_of [(''1.5'', 1.5), (''2'', 2)]"

definition omelette_form :: form where
  "omelette_form =
     [(''title'', ''Omelette''), (''servings'', ''2''),
      (''ingredient_name[]'', '' Egg ''), (''ingredient_amount[]'', ''2''),
      (''ingredient_unit[]'', ''piece''),
      (''ingredient_name[]'', ''   ''), (''ingredient_amount[]'', ''1.5''),
      (''ingredient_unit[]'', ''cup''),
      (''ingredient_name[]'', ''Salt''), (''ingredient_amount[]'', []),
      (''ingredient_unit[]'', [])]"


section \<open>Scaling one ingredient\<close>

text \<open>
  C2 (as the code has it). For every ingredient and every multiplier, \<open>scaled\<close> passes the name
  and the unit through unchanged; the amount of the result is \<open>round(amount * multiplier, 2)\<close>
  when the ingredient's amount is present and not zero, and is absent when the ingredient's
  amount is absent or zero. The result is a new value: the ingredient is an argument that
  the function only reads.
\<close>

theorem scaled_spec:
  "scaled_name (scaled ing m) = name ing \<and>
   scaled_unit (scaled ing m) = unit ing \<and>
   scaled_amount (scaled ing m) =
     (case amount ing of
        None \<Rightarrow> None
      | Some a \<Rightarrow> if a = 0 then None else Some (py_round (a * m) 2))"
  by (simp add: scaled_def split: option.split)

theorem scaled_spec_witness:
  "scaled \<lparr>iid = 1, recipe_id = 1, name = ''Flour'', amount = Some 1.5,
            unit = Some ''cup''\<rparr> 3 =
     \<lparr>scaled_name = ''Flour'', scaled_amount = Some 4.5, scaled_unit = Some ''cup''\<rparr> \<and>
   scaled \<lparr>iid = 2, recipe_id = 1, name = ''Salt'', amount = None, unit = None\<rparr> 3 =
     \<lparr>scaled_name = ''Salt'', scaled_amount = None, scaled_unit = None\<rparr>"
proof -
  have r: "py_round (1.5 * 3) 2 = 4.5"
    by (simp add: py_round_def round_half_even_def)
  note A = scaled_spec [of "\<lparr>iid = 1, recipe_id = 1, name = ''Flour'', amount = Some 1.5,
                             unit = Some ''cup''\<rparr>" 3]
  note B = scaled_spec [of "\<lparr>iid = 2, recipe_id = 1, name = ''Salt'', amount = None,
                             unit = None\<rparr>" 3]
  from A r have a:
    "scaled \<lparr>iid = 1, recipe_id = 1, name = ''Flour'', amount = Some 1.5,
              unit = Some ''cup''\<rparr> 3 =
     \<lparr>scaled_name = ''Flour'', scaled_amount = Some 4.5, scaled_unit = Some ''cup''\<rparr>"
    by (intro scaled_ingredient.equality) simp_all
  from B have b:
    "scaled \<lparr>iid = 2, recipe_id = 1, name = ''Salt'', amount = None, unit = None\<rparr> 3 =
     \<lparr>scaled_name = ''Salt'', scaled_amount = None, scaled_unit = None\<rparr>"
    by (intro scaled_ingredient.equality) simp_all
  from a b show ?thesis ..
qed

text \<open>
  C2 as written fails for a stored amount of \<open>0.0\<close>: the amount is present, the claim gives
  \<open>round(0.0 * 2, 2) = 0.0\<close>, the code gives \<open>None\<close>.
\<close>

theorem scaled_zero_amount_counterexample:
  "amount \<lparr>iid = 1, recipe_id = 1, name = ''Salt'', amount = Some 0, unit = Some ''tsp''\<rparr>
     = Some 0 \<and>
   scaled_amount (scaled \<lparr>iid = 1, recipe_id = 1, name = ''Salt'', amount = Some 0,
                           unit = Some ''tsp''\<rparr> 2) = None \<and>
   scaled_amount (scaled \<lparr>iid = 1, recipe_id = 1, name = ''Salt'', amount = Some 0,
                           unit = Some ''tsp''\<rparr> 2) \<noteq> Some (py_round (0 * 2) 2)"
  by (simp add: scaled_def)

section \<open>The shopping list\<close>

subsection \<open>The dictionary after the loops\<close>

lemma first_seen_Nil [simp]: "first_seen [] = []"
  by (simp add: first_seen_def)

lemma first_seen_snoc:
  "first_seen (xs @ [x]) = (if x \<in> set xs then first_seen xs else first_seen xs @ [x])"
  by (simp add: first_seen_def)

lemma set_first_seen [simp]: "set (first_seen xs) = set xs"
  by (simp add: first_seen_def)

lemma distinct_first_seen [simp]: "distinct (first_seen xs)"
  by (simp add: first_seen_def)

lemma length_first_seen: "length (first_seen xs) = card (set xs)"
  by (metis distinct_card distinct_first_seen set_first_seen)

lemma item_of_snoc_other:
  "occ_key oc \<noteq> k \<Longrightarrow> item_of (os @ [oc]) k = item_of os k"
  by (simp add: item_of_def)

lemma item_of_snoc_new:
  "occ_key oc \<notin> occ_key ` set os \<Longrightarrow>
   item_of (os @ [oc]) (occ_key oc) =
     \<lparr> item_name = name (occ_ingredient oc), item_amount = occ_amount oc,
       item_unit = snd (occ_key oc), item_recipes = [occ_title oc] \<rparr>"
proof -
  assume "occ_key oc \<notin> occ_key ` set os"
  then have "\<forall>x\<in>set os. occ_key x \<noteq> occ_key oc"
    by (metis imageI)
  then have "filter (\<lambda>x. occ_key x = occ_key oc) os = []"
    by (simp add: filter_empty_conv)
  then show ?thesis by (simp add: item_of_def)
qed

lemma item_of_snoc_old:
  assumes "occ_key oc \<in> occ_key ` set os"
  shows "item_of (os @ [oc]) (occ_key oc) =
     (item_of os (occ_key oc))\<lparr> item_amount := item_amount (item_of os (occ_key oc)) + occ_amount oc,
        item_recipes := item_recipes (item_of os (occ_key oc)) @ [occ_title oc] \<rparr>"
proof -
  from assms have "filter (\<lambda>x. occ_key x = occ_key oc) os \<noteq> []"
    by (auto simp: filter_empty_conv)
  then obtain o1 rest where "filter (\<lambda>x. occ_key x = occ_key oc) os = o1 # rest"
    by (cases "filter (\<lambda>x. occ_key x = occ_key oc) os") auto
  then show ?thesis by (simp add: item_of_def Let_def)
qed

lemma totals_char:
  "foldl add_occ [] os = map (\<lambda>k. (k, item_of os k)) (first_seen (map occ_key os))"
proof (induction os rule: rev_induct)
  case Nil
  show ?case by simp
next
  case (snoc oc os)
  let ?k = "occ_key oc"
  let ?t = "map (\<lambda>k. (k, item_of os k)) (first_seen (map occ_key os))"
  have keys: "map fst ?t = first_seen (map occ_key os)"
    by (simp add: comp_def)
  have unfold: "add_occ ?t oc =
     (if ?k \<in> set (map fst ?t)
      then map (\<lambda>(k, item). if k = ?k
             then (k, item\<lparr> item_amount := item_amount item + occ_amount oc,
                             item_recipes := item_recipes item @ [occ_title oc] \<rparr>)
             else (k, item)) ?t
      else ?t @ [(?k, \<lparr> item_name = name (occ_ingredient oc), item_amount = occ_amount oc,
                        item_unit = snd ?k, item_recipes = [occ_title oc] \<rparr>)])"
    by (simp add: add_occ_def add_ingredient_def occ_key_def occ_amount_def Let_def)
  show ?case
  proof (cases "?k \<in> occ_key ` set os")
    case True
    then have "add_occ ?t oc = map (\<lambda>k. (k, item_of (os @ [oc]) k)) (first_seen (map occ_key os))"
      unfolding unfold keys
      by (auto simp: item_of_snoc_old item_of_snoc_other)
    with True snoc show ?thesis by (simp add: first_seen_snoc)
  next
    case False
    then have other: "\<forall>k\<in>set os. item_of (os @ [oc]) (occ_key k) = item_of os (occ_key k)"
      by (metis imageI item_of_snoc_other)
    from False have "add_occ ?t oc =
        map (\<lambda>k. (k, item_of (os @ [oc]) k)) (first_seen (map occ_key os)) @
        [(?k, item_of (os @ [oc]) ?k)]"
      unfolding unfold keys
      using other by (simp add: item_of_snoc_new)
    with False snoc show ?thesis by (simp add: first_seen_snoc)
  qed
qed


lemma foldl_add_ingredient:
  "foldl (add_ingredient ttl m) t ings =
   foldl add_occ t (map (\<lambda>ing. \<lparr>occ_title = ttl, occ_multiplier = m, occ_ingredient = ing\<rparr>) ings)"
  by (induction ings arbitrary: t) (simp_all add: add_occ_def)

lemma multiplier_Inr:
  "multiplier (Inr n) stored =
     Inr (case stored of None \<Rightarrow> 1
          | Some d \<Rightarrow> if d \<noteq> 0 then real_of_int n / real_of_int d else 1)"
  by (simp add: multiplier_def split: option.split)

lemma ingredient_totals_fold:
  "\<forall>i\<in>set ids. smap i = Some (desired i) \<Longrightarrow>
   ingredient_totals s smap ids t = Inr (foldl add_occ t (occurrences s desired ids))"
proof (induction ids arbitrary: t)
  case Nil
  show ?case by (simp add: occurrences_def)
next
  case (Cons i ids)
  from Cons.prems have smap: "smap i = Some (desired i)" and rest: "\<forall>j\<in>set ids. smap j = Some (desired j)"
    by simp_all
  have occ: "occurrences s desired (i # ids) =
     (case get s i of None \<Rightarrow> []
      | Some r \<Rightarrow> map (\<lambda>ing. \<lparr> occ_title = title r,
                        occ_multiplier =
                          (case servings r of
                             None \<Rightarrow> 1
                           | Some d \<Rightarrow> if d \<noteq> 0 then real_of_int (desired i) / real_of_int d else 1),
                        occ_ingredient = ing \<rparr>) (ingredients s r)) @ occurrences s desired ids"
    by (simp add: occurrences_def)
  show ?case
  proof (cases "get s i")
    case None
    then show ?thesis using Cons.IH [OF rest] occ by simp
  next
    case (Some r)
    then show ?thesis
      using Cons.IH [OF rest] occ smap
      by (simp add: multiplier_Inr foldl_add_ingredient)
  qed
qed

lemma filter_key_nonempty:
  "k \<in> occ_key ` set os \<Longrightarrow> \<exists>oc rest. filter (\<lambda>x. occ_key x = k) os = oc # rest \<and> occ_key oc = k"
proof -
  assume "k \<in> occ_key ` set os"
  then have "filter (\<lambda>x. occ_key x = k) os \<noteq> []"
    by (auto simp: filter_empty_conv)
  then obtain oc rest where eq: "filter (\<lambda>x. occ_key x = k) os = oc # rest"
    by (cases "filter (\<lambda>x. occ_key x = k) os") auto
  then have "oc \<in> set (filter (\<lambda>x. occ_key x = k) os)" by simp
  then have "occ_key oc = k" by simp
  with eq show ?thesis by blast
qed

lemma item_key_item_of:
  assumes "k \<in> occ_key ` set os"
  shows "item_key (item_of os k) = k"
proof -
  from filter_key_nonempty [OF assms] obtain oc rest
    where eq: "filter (\<lambda>x. occ_key x = k) os = oc # rest" and k: "occ_key oc = k" by blast
  from k have "lower (name (occ_ingredient oc)) = fst k" by (auto simp: occ_key_def)
  with eq show ?thesis by (simp add: item_key_def item_of_def)
qed

lemma sort_name_item_of:
  assumes "k \<in> occ_key ` set os"
  shows "lower (item_name (item_of os k)) = fst k"
proof -
  have "fst (item_key (item_of os k)) = fst k"
    by (simp add: item_key_item_of [OF assms])
  then show ?thesis by (simp add: item_key_def)
qed

lemma insort_key_map_cong:
  "f (g x) = h x \<Longrightarrow> \<forall>y\<in>set ys. f (g y) = h y \<Longrightarrow>
   insort_key f (g x) (map g ys) = map g (insort_key h x ys)"
  by (induction ys) simp_all

lemma sort_key_map_cong:
  "\<forall>x\<in>set xs. f (g x) = h x \<Longrightarrow> sort_key f (map g xs) = map g (sort_key h xs)"
  by (induction xs) (simp_all add: insort_key_map_cong)

lemma shopping_items_char:
  "shopping_items (foldl add_occ [] os) = map (item_of os) (sorted_keys os)"
proof -
  have "\<forall>k\<in>set (first_seen (map occ_key os)). lower (item_name (item_of os k)) = fst k"
    by (simp add: sort_name_item_of)
  then have "sort_key (\<lambda>x. lower (item_name x)) (map (item_of os) (first_seen (map occ_key os)))
      = map (item_of os) (sort_key fst (first_seen (map occ_key os)))"
    by (rule sort_key_map_cong)
  then show ?thesis
    by (simp add: shopping_items_def totals_char comp_def sorted_keys_def)
qed

lemma set_sorted_keys [simp]: "set (sorted_keys os) = occ_key ` set os"
  by (simp add: sorted_keys_def)



lemma aggregate_char:
  assumes "\<forall>i\<in>set ids. smap i = Some (desired i)"
  shows "\<exists>t. ingredient_totals s smap ids [] = Inr t \<and>
           shopping_items t = map (item_of (occurrences s desired ids))
                                  (sorted_keys (occurrences s desired ids))"
  using ingredient_totals_fold [OF assms, of s "[]"] shopping_items_char by simp











lemma items_length:
  "length (map (item_of os) (sorted_keys os)) = card (occ_key ` set os)"
  by (simp add: sorted_keys_def length_first_seen)






subsection \<open>The handler and its loops\<close>

lemma servings_map_char:
  "servings_map py_int f ids m = Inr smap \<Longrightarrow>
   (\<forall>i\<in>set ids. \<exists>n. desired_servings py_int f i = Inr n \<and> smap i = Some n) \<and>
   (\<forall>i. i \<notin> set ids \<longrightarrow> smap i = m i)"
proof (induction ids arbitrary: m)
  case Nil
  then show ?case by simp
next
  case (Cons j ids)
  from Cons.prems obtain n where n: "desired_servings py_int f j = Inr n"
    and rest: "servings_map py_int f ids (m(j \<mapsto> n)) = Inr smap"
    by (auto split: sum.splits)
  from Cons.IH [OF rest] have ih1: "\<forall>i\<in>set ids. \<exists>n. desired_servings py_int f i = Inr n \<and> smap i = Some n"
    and ih2: "\<forall>i. i \<notin> set ids \<longrightarrow> smap i = (m(j \<mapsto> n)) i" by blast+
  have "smap j = Some n"
  proof (cases "j \<in> set ids")
    case True
    with ih1 n show ?thesis by fastforce
  next
    case False
    with ih2 show ?thesis by simp
  qed
  with n ih1 ih2 show ?case by auto
qed

lemma servings_map_total:
  "\<forall>i\<in>set ids. \<exists>n. desired_servings py_int f i = Inr n \<Longrightarrow>
   \<exists>smap. servings_map py_int f ids m = Inr smap"
proof (induction ids arbitrary: m)
  case Nil
  show ?case by simp
next
  case (Cons j ids)
  then obtain n where "desired_servings py_int f j = Inr n" by auto
  with Cons show ?case by simp
qed

lemma bounded_multiplier_Inr:
  "bounded_multiplier (Inr n) stored =
     (case stored of
        None \<Rightarrow> Inr 1
      | Some d \<Rightarrow>
          if d = 0 then Inr 1
          else if float_overflow (real_of_int n / real_of_int d) then Inl OverflowError
          else Inr (real_of_int n / real_of_int d))"
  by (simp add: bounded_multiplier_def split: option.split)

lemma bounded_totals_char:
  assumes "\<forall>i\<in>set ids. smap i = Some (desired i)"
  shows "bounded_totals s smap ids t =
           (if \<forall>i\<in>set ids. within_limits s desired i then ingredient_totals s smap ids t
            else Inl OverflowError)"
  using assms
proof (induction ids arbitrary: t)
  case Nil
  show ?case by simp
next
  case (Cons i ids)
  from Cons.prems have smap: "smap i = Some (desired i)"
    and rest: "\<forall>j\<in>set ids. smap j = Some (desired j)" by simp_all
  note IH = Cons.IH [OF rest]
  show ?case
  proof (cases "sqlite_integer i")
    case False
    then show ?thesis by (simp add: within_limits_def)
  next
    case int: True
    show ?thesis
    proof (cases "get s i")
      case None
      with int IH show ?thesis by (simp add: within_limits_def)
    next
      case (Some r)
      show ?thesis
      proof (cases "servings r")
        case None
        with int Some smap IH show ?thesis
          by (simp add: within_limits_def bounded_multiplier_Inr multiplier_Inr)
      next
        case d: (Some d)
        show ?thesis
        proof (cases "d = 0 \<or> \<not> float_overflow (real_of_int (desired i) / real_of_int d)")
          case True
          with int Some smap d IH show ?thesis
            by (auto simp: within_limits_def bounded_multiplier_Inr multiplier_Inr)
        next
          case False
          with int Some smap d show ?thesis
            by (simp add: within_limits_def bounded_multiplier_Inr)
        qed
      qed
    qed
  qed
qed

lemma within_limits_iff:
  "within_limits s desired i \<longleftrightarrow>
     - (2 ^ 63) \<le> i \<and> i < 2 ^ 63 \<and>
     (\<forall>r d. get s i = Some r \<and> servings r = Some d \<and> d \<noteq> 0 \<longrightarrow>
        \<bar>real_of_int (desired i) / real_of_int d\<bar> < 2 ^ 1024 - 2 ^ 970)"
  by (auto simp: within_limits_def sqlite_integer_def float_overflow_def not_le
           split: option.splits)

lemma shopping_list_returns:
  assumes ids: "selected_ids py_int (getlist f ''recipes'') = Inr ids"
    and des: "\<forall>i\<in>set ids. desired_servings py_int f i = Inr (desired i)"
    and lim: "\<forall>i\<in>set ids. within_limits s desired i"
  shows "shopping_list py_int s f =
           Inr \<lparr> shop_recipes = sort_key title (recipes s),
                 shop_items = map (item_of (occurrences s desired ids))
                                  (sorted_keys (occurrences s desired ids)),
                 shop_selected_ids = ids \<rparr>"
proof -
  from des have "\<forall>i\<in>set ids. \<exists>n. desired_servings py_int f i = Inr n" by blast
  from servings_map_total [OF this] obtain smap
    where sm: "servings_map py_int f ids Map.empty = Inr smap" by blast
  from servings_map_char [OF sm] des have h: "\<forall>i\<in>set ids. smap i = Some (desired i)"
    by fastforce
  from aggregate_char [OF h] obtain t where t: "ingredient_totals s smap ids [] = Inr t"
    and items: "shopping_items t = map (item_of (occurrences s desired ids))
                                  (sorted_keys (occurrences s desired ids))" by blast
  from bounded_totals_char [OF h, of s "[]"] lim t
  have "bounded_totals s smap ids [] = Inr t" by simp
  with ids sm items show ?thesis by (simp add: shopping_list_def)
qed

text \<open>Text that \<^verbatim>\<open>int\<close> rejects ends the request before the aggregation starts.\<close>

lemma selected_ids_rejects:
  "v \<in> set vs \<Longrightarrow> py_int v = None \<Longrightarrow> selected_ids py_int vs = Inl ValueError"
  by (induction vs) (auto split: option.splits sum.splits)

lemma shopping_list_rejects:
  "v \<in> set (getlist f ''recipes'') \<Longrightarrow> py_int v = None \<Longrightarrow>
   shopping_list py_int s f = Inl ValueError"
  by (simp add: shopping_list_def selected_ids_rejects)

lemma ingredient_totals_skip:
  assumes "\<forall>i\<in>set ids. smap i = Some (desired i)"
  shows "ingredient_totals s smap
           (filter (\<lambda>i. case get s i of None \<Rightarrow> False | Some r \<Rightarrow> ingredients s r \<noteq> []) ids) t =
         ingredient_totals s smap ids t"
  using assms
proof (induction ids arbitrary: t)
  case Nil
  show ?case by simp
next
  case (Cons i ids)
  then show ?case
    by (cases "get s i") (simp_all add: multiplier_Inr)
qed

lemma occurrences_skip:
  "occurrences s desired
     (filter (\<lambda>i. case get s i of None \<Rightarrow> False | Some r \<Rightarrow> ingredients s r \<noteq> []) ids) =
   occurrences s desired ids"
  by (induction ids) (auto simp: occurrences_def split: option.splits)

subsection \<open>Merging by key\<close>




subsection \<open>Order of the list and the fields of an item\<close>



subsection \<open>Permuting the selections\<close>





subsection \<open>Errors, and the length of the list\<close>

text \<open>
  C6 (as the code has it). Let \<^verbatim>\<open>servings_map\<close> hold the desired servings of every
  selected id, as the first loop of the handler stores them. When every selection stays
  within the limits of the machine's numbers (the id is a signed 64-bit integer, and the
  quotient of desired and stored servings is below \<open>2 ^ 1024 - 2 ^ 970\<close> in absolute value
  when the stored servings are truthy), the aggregation returns a list and no error, the
  length of the list is the number of distinct keys among the occurrences, and leaving out
  the selections whose id does not resolve or whose recipe owns no ingredient changes
  neither the result nor the occurrences. When a selection is outside these limits the
  aggregation raises \<^verbatim>\<open>OverflowError\<close>. No selection gives the empty list; and the whole
  handler returns its page for every form whose \<^verbatim>\<open>recipes\<close> fields and
  \<^verbatim>\<open>servings_<id>\<close> fields are accepted by \<^verbatim>\<open>int\<close> with values within the limits.
\<close>

theorem shopping_list_raises_nothing:
  assumes "\<forall>i\<in>set ids. smap i = Some (desired i)"
  shows "((\<forall>i\<in>set ids. within_limits s desired i) \<longrightarrow>
            (\<exists>t. bounded_totals s smap ids [] = Inr t \<and>
                 ingredient_totals s smap ids [] = Inr t \<and>
                 length (shopping_items t) =
                   card (occ_key ` set (occurrences s desired ids))) \<and>
            bounded_totals s smap
              (filter (\<lambda>i. case get s i of None \<Rightarrow> False | Some r \<Rightarrow> ingredients s r \<noteq> [])
                 ids) [] =
              bounded_totals s smap ids []) \<and>
         (\<not> (\<forall>i\<in>set ids. within_limits s desired i) \<longrightarrow>
            bounded_totals s smap ids [] = Inl OverflowError) \<and>
         occurrences s desired
           (filter (\<lambda>i. case get s i of None \<Rightarrow> False | Some r \<Rightarrow> ingredients s r \<noteq> []) ids) =
           occurrences s desired ids \<and>
         map_sum id shopping_items (bounded_totals s smap [] []) = Inr [] \<and>
         (\<forall>py_int f.
            selected_ids py_int (getlist f ''recipes'') = Inr ids \<and>
            (\<forall>i\<in>set ids. desired_servings py_int f i = Inr (desired i)) \<and>
            (\<forall>i\<in>set ids. within_limits s desired i) \<longrightarrow>
            (\<exists>v. shopping_list py_int s f = Inr v \<and> shop_selected_ids v = ids \<and>
                  length (shop_items v) = card (occ_key ` set (occurrences s desired ids)))) \<and>
         (\<forall>i. within_limits s desired i \<longleftrightarrow>
            - (2 ^ 63) \<le> i \<and> i < 2 ^ 63 \<and>
            (\<forall>r d. get s i = Some r \<and> servings r = Some d \<and> d \<noteq> 0 \<longrightarrow>
               \<bar>real_of_int (desired i) / real_of_int d\<bar> < 2 ^ 1024 - 2 ^ 970))"
proof -
  let ?keep = "filter (\<lambda>i. case get s i of None \<Rightarrow> False | Some r \<Rightarrow> ingredients s r \<noteq> []) ids"
  from aggregate_char [OF assms] obtain t where t: "ingredient_totals s smap ids [] = Inr t"
    and items: "shopping_items t = map (item_of (occurrences s desired ids))
                                  (sorted_keys (occurrences s desired ids))" by blast
  note char = bounded_totals_char [OF assms, of s "[]"]
  have 1: "\<exists>t. bounded_totals s smap ids [] = Inr t \<and>
                 ingredient_totals s smap ids [] = Inr t \<and>
                 length (shopping_items t) =
                   card (occ_key ` set (occurrences s desired ids))"
    if "\<forall>i\<in>set ids. within_limits s desired i"
  proof -
    from char that t have "bounded_totals s smap ids [] = Inr t" by simp
    moreover have "length (shopping_items t) = card (occ_key ` set (occurrences s desired ids))"
      using items items_length [of "occurrences s desired ids"] by simp
    ultimately show ?thesis using t by blast
  qed
  have 2: "bounded_totals s smap ?keep [] = bounded_totals s smap ids []"
    if lim: "\<forall>i\<in>set ids. within_limits s desired i"
  proof -
    from assms have h': "\<forall>i\<in>set ?keep. smap i = Some (desired i)" by simp
    from lim have lim': "\<forall>i\<in>set ?keep. within_limits s desired i" by simp
    from bounded_totals_char [OF h', of s "[]"] lim'
    have "bounded_totals s smap ?keep [] = ingredient_totals s smap ?keep []" by simp
    also have "\<dots> = ingredient_totals s smap ids []"
      by (rule ingredient_totals_skip [OF assms])
    also from char lim have "\<dots> = bounded_totals s smap ids []" by simp
    finally show ?thesis .
  qed
  have 3: "bounded_totals s smap ids [] = Inl OverflowError"
    if "\<not> (\<forall>i\<in>set ids. within_limits s desired i)"
    using char that by simp
  have 4: "map_sum id shopping_items (bounded_totals s smap [] []) = Inr []"
    by (simp add: shopping_items_def)
  have 5: "\<exists>v. shopping_list py_int s f = Inr v \<and> shop_selected_ids v = ids \<and>
                  length (shop_items v) = card (occ_key ` set (occurrences s desired ids))"
    if "selected_ids py_int (getlist f ''recipes'') = Inr ids \<and>
            (\<forall>i\<in>set ids. desired_servings py_int f i = Inr (desired i)) \<and>
            (\<forall>i\<in>set ids. within_limits s desired i)" for py_int f
  proof -
    from that have "shopping_list py_int s f =
           Inr \<lparr> shop_recipes = sort_key title (recipes s),
                 shop_items = map (item_of (occurrences s desired ids))
                                  (sorted_keys (occurrences s desired ids)),
                 shop_selected_ids = ids \<rparr>"
      by (intro shopping_list_returns) simp_all
    then show ?thesis using items_length [of "occurrences s desired ids"] by simp
  qed
  from 1 2 3 4 5 occurrences_skip within_limits_iff show ?thesis by blast
qed

theorem shopping_list_raises_nothing_witness:
  "(Map.empty(1 \<mapsto> 4, 7 \<mapsto> 4)) (1::int) = Some (4::int) \<and>
   (Map.empty(1 \<mapsto> 4, 7 \<mapsto> 4)) (7::int) = Some (4::int) \<and>
   get kitchen 7 = None \<and>
   within_limits kitchen (\<lambda>i. 4) 7 \<and>
   within_limits kitchen (\<lambda>i. 4) 1 \<and>
   (\<exists>t. bounded_totals kitchen (Map.empty(1 \<mapsto> 4, 7 \<mapsto> 4)) [7, 1] [] = Inr t \<and>
        ingredient_totals kitchen (Map.empty(1 \<mapsto> 4, 7 \<mapsto> 4)) [7, 1] [] = Inr t \<and>
        length (shopping_items t) = card (occ_key ` set (occurrences kitchen (\<lambda>i. 4) [7, 1]))) \<and>
   bounded_totals kitchen (Map.empty(1 \<mapsto> 4, 7 \<mapsto> 4))
     (filter (\<lambda>i. case get kitchen i of None \<Rightarrow> False | Some r \<Rightarrow> ingredients kitchen r \<noteq> [])
        [7, 1]) [] =
     bounded_totals kitchen (Map.empty(1 \<mapsto> 4, 7 \<mapsto> 4)) [7, 1] [] \<and>
   map_sum id shopping_items (bounded_totals kitchen (Map.empty(1 \<mapsto> 4, 7 \<mapsto> 4)) [] []) =
     Inr []"
proof -
  have a: "(Map.empty(1 \<mapsto> 4, 7 \<mapsto> 4)) (1::int) = Some (4::int)" by simp
  have b: "(Map.empty(1 \<mapsto> 4, 7 \<mapsto> 4)) (7::int) = Some (4::int)" by simp
  have c: "get kitchen 7 = None" by (simp add: get_def kitchen_def pancakes_def cake_def)
  have l7: "within_limits kitchen (\<lambda>i. 4) 7"
    by (simp add: within_limits_def sqlite_integer_def c)
  have l1: "within_limits kitchen (\<lambda>i. 4) 1"
    by (simp add: within_limits_def sqlite_integer_def float_overflow_def
          get_def kitchen_def pancakes_def cake_def)
  have h: "\<forall>i\<in>set [7, 1]. (Map.empty(1 \<mapsto> 4, 7 \<mapsto> 4)) (i::int) = Some ((\<lambda>i. 4::int) i)"
    by simp
  from l7 l1 have lim: "\<forall>i\<in>set [7, 1]. within_limits kitchen (\<lambda>i. 4) i" by simp
  note T = shopping_list_raises_nothing [OF h, of kitchen]
  from a b c l7 l1 lim T show ?thesis by blast
qed

text \<open>
  C6 as written fails at the limits of the machine's numbers. The id \<open>2 ^ 63\<close> does not
  resolve, and the selection is not passed over: binding it raises \<^verbatim>\<open>OverflowError\<close>. And
  for Pancakes, stored with 2 servings, desired servings of \<open>10 ^ 309\<close> make the division
  raise \<^verbatim>\<open>OverflowError\<close>.
\<close>

theorem shopping_list_overflow_counterexample:
  "(Map.empty(9223372036854775808 \<mapsto> 4)) (9223372036854775808::int) = Some (4::int) \<and>
   get kitchen 9223372036854775808 = None \<and>
   bounded_totals kitchen (Map.empty(9223372036854775808 \<mapsto> 4)) [9223372036854775808] [] =
     Inl OverflowError \<and>
   (Map.empty(1 \<mapsto> 10 ^ 309)) (1::int) = Some (10 ^ 309 :: int) \<and>
   get kitchen 1 = Some pancakes \<and>
   servings pancakes = Some 2 \<and>
   bounded_totals kitchen (Map.empty(1 \<mapsto> 10 ^ 309)) [1] [] = Inl OverflowError"
  by (simp add: sqlite_integer_def float_overflow_def bounded_multiplier_def
        get_def kitchen_def pancakes_def cake_def)

section \<open>The multiplier\<close>



section \<open>Searching the recipes\<close>






















section \<open>Creating, editing and deleting recipes\<close>

lemma get_Some_rid: "get s i = Some r \<Longrightarrow> rid r = i \<and> r \<in> set (recipes s)"
  by (auto simp: get_def find_Some_iff)

lemma get_None_iff: "get s i = None \<longleftrightarrow> i \<notin> rid ` set (recipes s)"
  by (auto simp: get_def find_None_iff)

lemma insert_rows_recipe_id: "ing \<in> set (insert_rows k r ings) \<Longrightarrow> recipe_id ing = r"
  by (induction k r ings rule: insert_rows.induct) auto








subsection \<open>What a commit writes\<close>

lemma new_recipe_store:
  assumes "new_recipe py_int py_float now s f = Inr (s', k)"
  shows "\<exists>rf ings r. read_fields py_int f = Inr rf \<and>
           read_ingredients py_float (form_rows f) = Inr ings \<and>
           rid r = k \<and> title r = f_title rf \<and>
           recipes s' = recipes s @ [r] \<and>
           ingredient_rows s' = ingredient_rows s @
             insert_rows (next_id (map iid (ingredient_rows s))) k ings"
  using assms
  by (auto simp: new_recipe_def Let_def split: sum.splits)

lemma edit_recipe_store:
  assumes "edit_recipe py_int py_float now s i f = Inr (s', k)"
  shows "\<exists>rf ings. read_fields py_int f = Inr rf \<and>
           read_ingredients py_float (form_rows f) = Inr ings \<and>
           k = i \<and> i \<in> rid ` set (recipes s) \<and>
           map rid (recipes s') = map rid (recipes s) \<and>
           (\<forall>r\<in>set (recipes s'). rid r = i \<longrightarrow> title r = f_title rf) \<and>
           ingredient_rows s' = filter (\<lambda>ing. recipe_id ing \<noteq> i) (ingredient_rows s) @
             insert_rows (next_id (map iid (ingredient_rows s))) i ings"
proof -
  from assms obtain recipe rf ings where g: "get s i = Some recipe"
    and rf: "read_fields py_int f = Inr rf"
    and ings: "read_ingredients py_float (form_rows f) = Inr ings"
    by (auto simp: edit_recipe_def split: option.splits sum.splits)
  from get_Some_rid [OF g] have r: "rid recipe = i" "recipe \<in> set (recipes s)" by simp_all
  define edited where "edited =
     recipe\<lparr> title := f_title rf, description := Some (f_description rf),
             category := Some (f_category rf), servings := Some (f_servings rf),
             prep_time := f_prep_time rf, cook_time := f_cook_time rf,
             instructions := Some (f_instructions rf) \<rparr>"
  define written where "written = (if edited \<noteq> recipe then edited\<lparr> updated_at := now \<rparr> else recipe)"
  have e: "rid edited = i" "title edited = f_title rf" using r by (simp_all add: edited_def)
  have w: "rid written = i \<and> title written = f_title rf"
  proof (cases "edited = recipe")
    case True
    then have "written = edited" by (simp add: written_def)
    with e show ?thesis by simp
  next
    case False
    then have "written = edited\<lparr> updated_at := now \<rparr>" by (simp add: written_def)
    with e show ?thesis by simp
  qed
  have "edit_recipe py_int py_float now s i f =
      Inr (s\<lparr> recipes := map (\<lambda>x. if rid x = rid recipe then written else x) (recipes s),
        ingredient_rows := filter (\<lambda>ing. recipe_id ing \<noteq> rid recipe) (ingredient_rows s) @
             insert_rows (next_id (map iid (ingredient_rows s))) (rid recipe) ings \<rparr>, rid recipe)"
    by (simp only: edit_recipe_def Let_def g rf ings option.case sum.case written_def edited_def)
  with assms r have s': "s' = s\<lparr> recipes := map (\<lambda>x. if rid x = i then written else x) (recipes s),
        ingredient_rows := filter (\<lambda>ing. recipe_id ing \<noteq> i) (ingredient_rows s) @
             insert_rows (next_id (map iid (ingredient_rows s))) i ings \<rparr>" and k: "k = i"
    by auto
  have 1: "map rid (recipes s') = map rid (recipes s)"
    using w by (simp add: s' comp_def)
  have 2: "\<forall>x\<in>set (recipes s'). rid x = i \<longrightarrow> title x = f_title rf"
    using w by (auto simp: s')
  from r have "i \<in> rid ` set (recipes s)" by auto
  with rf ings k 1 2 show ?thesis by (simp add: s')
qed

lemma delete_recipe_store:
  assumes "delete_recipe s i = Inr s'"
  shows "recipes s' = filter (\<lambda>r. rid r \<noteq> i) (recipes s) \<and>
         ingredient_rows s' = filter (\<lambda>ing. recipe_id ing \<noteq> i) (ingredient_rows s)"
proof -
  from assms obtain recipe where g: "get s i = Some recipe"
    by (auto simp: delete_recipe_def split: option.splits)
  from get_Some_rid [OF g] have "rid recipe = i" by simp
  with assms g show ?thesis by (auto simp: delete_recipe_def)
qed


lemma references_ok_iff:
  "references_ok s \<longleftrightarrow> (\<forall>ing\<in>set (ingredient_rows s). \<exists>r\<in>set (recipes s). rid r = recipe_id ing)"
  unfolding references_ok_def list_all_iff set_map image_iff by metis


lemma references_ok_new:
  assumes "new_recipe py_int py_float now s f = Inr (s', k)" and "references_ok s"
  shows "references_ok s'"
proof -
  from new_recipe_store [OF assms(1)] obtain ings r where r: "rid r = k"
    and rs: "recipes s' = recipes s @ [r]"
    and rows: "ingredient_rows s' = ingredient_rows s @
             insert_rows (next_id (map iid (ingredient_rows s))) k ings" by blast
  show ?thesis
    unfolding references_ok_iff rs rows
    using assms(2) r by (auto simp: references_ok_iff dest: insert_rows_recipe_id)
qed

lemma references_ok_edit:
  assumes "edit_recipe py_int py_float now s i f = Inr (s', k)" and "references_ok s"
  shows "references_ok s'"
proof -
  from edit_recipe_store [OF assms(1)] obtain ings where i: "i \<in> rid ` set (recipes s)"
    and rs: "map rid (recipes s') = map rid (recipes s)"
    and rows: "ingredient_rows s' = filter (\<lambda>ing. recipe_id ing \<noteq> i) (ingredient_rows s) @
             insert_rows (next_id (map iid (ingredient_rows s))) i ings" by blast
  from rs have rs': "set (map rid (recipes s')) = set (map rid (recipes s))" by simp
  show ?thesis
    unfolding references_ok_def rs' rows
    using assms(2) i by (auto simp: references_ok_def list_all_iff dest: insert_rows_recipe_id)
qed

lemma references_ok_delete:
  assumes "delete_recipe s i = Inr s'" and "references_ok s"
  shows "references_ok s'"
  using assms(2) delete_recipe_store [OF assms(1)]
  by (fastforce simp: references_ok_iff)

lemma references_ok_after:
  "references_ok s \<Longrightarrow> references_ok (after py_int py_float s req)"
  by (cases req)
     (auto simp: after_def split: sum.splits
           intro: references_ok_new references_ok_edit references_ok_delete)

lemma references_ok_run:
  "references_ok s \<Longrightarrow> references_ok (foldl (after py_int py_float) s reqs)"
  by (induction reqs arbitrary: s) (simp_all add: references_ok_after)






lemma read_fields_title:
  "read_fields py_int f = Inr rf \<Longrightarrow> form_get f ''title'' = Some (f_title rf)"
  by (auto simp: read_fields_def split: option.splits sum.splits)

lemma read_fields_no_title:
  "form_get f ''title'' = None \<Longrightarrow> read_fields py_int f = Inl BadRequestKeyError"
  by (simp add: read_fields_def)

subsection \<open>A missing title\<close>

text \<open>
  C8 (as the code has it). A create or edit submission with no \<^verbatim>\<open>title\<close> field is
  rejected before anything is written: \<^verbatim>\<open>request.form['title']\<close> raises, the handler
  returns the error (an edit of an unknown id fails with not-found before that), and the
  database after the request is the database before it. A submission that is accepted
  stores the title exactly as it was submitted.
\<close>

theorem missing_title_rejected:
  "(form_get f ''title'' = None \<longrightarrow>
      new_recipe py_int py_float now s f = Inl BadRequestKeyError \<and>
      after py_int py_float s (New_recipe now f) = s \<and>
      (\<forall>r. get s i = Some r \<longrightarrow>
         edit_recipe py_int py_float now s i f = Inl BadRequestKeyError) \<and>
      (get s i = None \<longrightarrow> edit_recipe py_int py_float now s i f = Inl NotFound) \<and>
      after py_int py_float s (Edit_recipe now i f) = s) \<and>
   (new_recipe py_int py_float now s f = Inr (s', k) \<longrightarrow>
      (\<exists>r. recipes s' = recipes s @ [r] \<and> rid r = k \<and> form_get f ''title'' = Some (title r))) \<and>
   (edit_recipe py_int py_float now s i f = Inr (s', k) \<longrightarrow>
      (\<forall>r\<in>set (recipes s'). rid r = i \<longrightarrow> form_get f ''title'' = Some (title r)))"
proof -
  have 1: "form_get f ''title'' = None \<longrightarrow>
      new_recipe py_int py_float now s f = Inl BadRequestKeyError \<and>
      after py_int py_float s (New_recipe now f) = s \<and>
      (\<forall>r. get s i = Some r \<longrightarrow>
         edit_recipe py_int py_float now s i f = Inl BadRequestKeyError) \<and>
      (get s i = None \<longrightarrow> edit_recipe py_int py_float now s i f = Inl NotFound) \<and>
      after py_int py_float s (Edit_recipe now i f) = s"
    by (auto simp: new_recipe_def edit_recipe_def after_def read_fields_no_title
             split: option.splits)
  have 2: "\<exists>r. recipes s' = recipes s @ [r] \<and> rid r = k \<and> form_get f ''title'' = Some (title r)"
    if "new_recipe py_int py_float now s f = Inr (s', k)"
  proof -
    from new_recipe_store [OF that] obtain rf r where "read_fields py_int f = Inr rf"
      "rid r = k" "title r = f_title rf" "recipes s' = recipes s @ [r]" by blast
    with read_fields_title [of py_int f rf] show ?thesis by auto
  qed
  have 3: "\<forall>r\<in>set (recipes s'). rid r = i \<longrightarrow> form_get f ''title'' = Some (title r)"
    if "edit_recipe py_int py_float now s i f = Inr (s', k)"
  proof -
    from edit_recipe_store [OF that] obtain rf where "read_fields py_int f = Inr rf"
      "\<forall>r\<in>set (recipes s'). rid r = i \<longrightarrow> title r = f_title rf" by blast
    with read_fields_title [of py_int f rf] show ?thesis by auto
  qed
  from 1 2 3 show ?thesis by blast
qed


subsection \<open>Names of stored ingredients\<close>


subsection \<open>Deleting a recipe\<close>

text \<open>
  C10. A delete removes the recipe's row and, in the same commit, every ingredient row that
  refers to it: afterwards the id does not resolve and no ingredient row carries it. Every
  request keeps the invariant that each ingredient row refers to a recipe row, and the
  invariant holds after every sequence of requests on the empty database.
\<close>

theorem delete_cascades:
  "(delete_recipe s i = Inr s' \<longrightarrow>
      get s' i = None \<and>
      (\<forall>ing\<in>set (ingredient_rows s'). recipe_id ing \<noteq> i) \<and>
      recipes s' = filter (\<lambda>r. rid r \<noteq> i) (recipes s) \<and>
      ingredient_rows s' = filter (\<lambda>ing. recipe_id ing \<noteq> i) (ingredient_rows s)) \<and>
   (references_ok s \<longrightarrow> references_ok (after py_int py_float s req)) \<and>
   references_ok (foldl (after py_int py_float) empty_store reqs) \<and>
   (references_ok s \<longleftrightarrow>
      (\<forall>ing\<in>set (ingredient_rows s). \<exists>r\<in>set (recipes s). rid r = recipe_id ing))"
proof -
  have 1: "get s' i = None \<and>
      (\<forall>ing\<in>set (ingredient_rows s'). recipe_id ing \<noteq> i) \<and>
      recipes s' = filter (\<lambda>r. rid r \<noteq> i) (recipes s) \<and>
      ingredient_rows s' = filter (\<lambda>ing. recipe_id ing \<noteq> i) (ingredient_rows s)"
    if "delete_recipe s i = Inr s'"
    using delete_recipe_store [OF that] by (auto simp: get_None_iff)
  have 3: "references_ok (foldl (after py_int py_float) empty_store reqs)"
    by (rule references_ok_run) (simp add: references_ok_def empty_store_def)
  from 1 3 references_ok_after references_ok_iff show ?thesis by blast
qed

lemmas store_eval = new_recipe_def edit_recipe_def delete_recipe_def after_def read_fields_def
  opt_int_def form_rows_def getlist_def form_get_def next_id_def strip_def is_space_def
  empty_store_def demo_int_def demo_float_def omelette_form_def
  kitchen_def pancakes_def cake_def get_def

theorem missing_title_rejected_witness:
  "form_get [(''servings'', ''4'')] ''title'' = None \<and>
   new_recipe demo_int demo_float 9 kitchen [(''servings'', ''4'')] = Inl BadRequestKeyError \<and>
   after demo_int demo_float kitchen (New_recipe 9 [(''servings'', ''4'')]) = kitchen \<and>
   get kitchen 1 = Some pancakes \<and>
   edit_recipe demo_int demo_float 9 kitchen 1 [(''servings'', ''4'')] = Inl BadRequestKeyError \<and>
   after demo_int demo_float kitchen (Edit_recipe 9 1 [(''servings'', ''4'')]) = kitchen"
proof -
  have h: "form_get [(''servings'', ''4'')] ''title'' = None" by (simp add: form_get_def)
  have g: "get kitchen 1 = Some pancakes" by (simp add: get_def kitchen_def pancakes_def)
  note T = missing_title_rejected [of "[(''servings'', ''4'')]" demo_int demo_float 9 kitchen 1]
  from T h g show ?thesis by blast
qed

text \<open>
  C8 as written fails for a title that is present and empty: nothing checks it, the create
  handler stores a recipe with the empty title and the edit handler overwrites the title
  of Pancakes with it.
\<close>

theorem empty_title_counterexample:
  "form_get [(''title'', [])] ''title'' = Some [] \<and>
   new_recipe demo_int demo_float 9 kitchen [(''title'', [])] =
     Inr (\<lparr> recipes =
              [pancakes, cake,
               \<lparr> rid = 3, title = [], description = Some [], category = Some ''Dinner'',
                 servings = Some 4, prep_time = None, cook_time = None,
                 instructions = Some [], calories = None, protein = None, carbs = None,
                 fat = None, created_at = 9, updated_at = 9 \<rparr>],
            ingredient_rows = ingredient_rows kitchen \<rparr>, 3) \<and>
   map title (recipes (after demo_int demo_float kitchen (Edit_recipe 9 1 [(''title'', [])]))) =
     [[], ''Cake'']"
  by (simp add: store_eval)


theorem delete_cascades_witness:
  "delete_recipe kitchen 2 =
     Inr \<lparr> recipes = [pancakes],
           ingredient_rows =
             [\<lparr> iid = 1, recipe_id = 1, name = ''Sugar'', amount = Some 1,
                unit = Some ''cup'' \<rparr>] \<rparr> \<and>
   get \<lparr> recipes = [pancakes],
         ingredient_rows =
           [\<lparr> iid = 1, recipe_id = 1, name = ''Sugar'', amount = Some 1,
              unit = Some ''cup'' \<rparr>] \<rparr> 2 = None \<and>
   references_ok kitchen \<and>
   references_ok (after demo_int demo_float kitchen (Delete_recipe 2)) \<and>
   references_ok (foldl (after demo_int demo_float) empty_store
     [New_recipe 9 omelette_form, Delete_recipe 1])"
proof -
  have a: "delete_recipe kitchen 2 =
     Inr \<lparr> recipes = [pancakes],
           ingredient_rows =
             [\<lparr> iid = 1, recipe_id = 1, name = ''Sugar'', amount = Some 1,
                unit = Some ''cup'' \<rparr>] \<rparr>"
    by (simp add: delete_recipe_def get_def kitchen_def pancakes_def cake_def)
  have k: "references_ok kitchen"
    by (simp add: references_ok_def kitchen_def pancakes_def cake_def)
  note T = delete_cascades [where s = kitchen and i = 2 and py_int = demo_int
      and py_float = demo_float and req = "Delete_recipe 2"
      and reqs = "[New_recipe 9 omelette_form, Delete_recipe 1]"]
  from T a have b: "get \<lparr> recipes = [pancakes],
         ingredient_rows =
           [\<lparr> iid = 1, recipe_id = 1, name = ''Sugar'', amount = Some 1,
              unit = Some ''cup'' \<rparr>] \<rparr> 2 = None" by blast
  from T k have c: "references_ok (after demo_int demo_float kitchen (Delete_recipe 2))"
    by blast
  from T have d: "references_ok (foldl (after demo_int demo_float) empty_store
     [New_recipe 9 omelette_form, Delete_recipe 1])" by blast
  from a b k c d show ?thesis by (intro conjI)
qed


end
